theory Spec2Isabelle
  imports Complex_Main "HOL-Library.Word" "HOL-Library.AList" "HOL-Library.Sublist"
    "HOL-Library.Log_Nat"
begin

section \<open>The telemetry worker (cmd/telem\_worker/main.go)\<close>

subsection \<open>Machine integers and time\<close>

text \<open>
  Go's \<open>int64\<close> is a 64-bit word: \<open>*\<close> wraps around, comparisons are signed
  (\<open>sint\<close>). A \<open>time.Time\<close> is modelled by its wall-clock instant, the number of
  nanoseconds since the Unix epoch as an unbounded integer (Go stores seconds since year 1
  in an \<open>int64\<close> plus nanoseconds, so every instant built below is representable).
  \<open>Before\<close>, \<open>After\<close> and \<open>Add\<close> are \<open><\<close>, \<open>></\<close> and \<open>+\<close> on instants.
\<close>

type_synonym int64 = "64 word"
type_synonym Time = int

definition Hour :: int where
  "Hour = 3600 * 1000000000"

text \<open>\<open>time.Unix(sec, nsec)\<close>, for the calls of this file (one argument is 0).\<close>

definition time_Unix :: "int64 \<Rightarrow> int64 \<Rightarrow> Time" where
  "time_Unix sec nsec = sint sec * 1000000000 + sint nsec"

text \<open>\<open>unixAnyToTime\<close>, lines 26-42: the switch on the magnitude of \<open>ts\<close>.\<close>

definition unixAnyToTime :: "int64 \<Rightarrow> Time" where
  "unixAnyToTime ts =
     (if 100000000000000000 \<le> sint ts then time_Unix 0 ts
      else if 100000000000000 \<le> sint ts then time_Unix 0 (ts * 1000)
      else if 100000000000 \<le> sint ts then time_Unix 0 (ts * 1000000)
      else time_Unix ts 0)"

subsection \<open>Values of type \<open>interface{}\<close>\<close>

text \<open>
  A \<open>float64\<close> is a sign with a rational magnitude, an infinity or NaN. The
  finite values that occur are produced by \<open>round64\<close> below, which rounds to the
  nearest value with a 53-bit significand (ties to even, subnormals from \<open>2^-1074\<close>).
\<close>

datatype float64 = Finite bool rat | Infinite bool | NaN

definition floor_log2 :: "rat \<Rightarrow> int" where
  "floor_log2 q = (if 1 \<le> q then bitlen \<lfloor>q\<rfloor> - 1 else - bitlen (\<lceil>1 / q\<rceil> - 1))"

definition round_half_even :: "rat \<Rightarrow> int" where
  "round_half_even q =
     (let f = \<lfloor>q\<rfloor>; d = q - of_int f
      in if d < 1 / 2 then f else if 1 / 2 < d then f + 1 else if even f then f else f + 1)"

definition round64 :: "rat \<Rightarrow> rat" where
  "round64 q =
     (if q = 0 then 0
      else let p = max (floor_log2 q - 52) (- 1074)
           in of_int (round_half_even (q / 2 powi p)) * 2 powi p)"

text \<open>
  \<open>json.Number\<close> is the text of a JSON number literal; the decoder, the only producer
  of such values in this program, stores the literal unchanged. The literal is kept in
  parsed form, following the JSON grammar: an optional minus sign, the integer part, an
  optional fraction (its digits) and an optional exponent.
\<close>

datatype Number = Number (negative: bool) (int_part: nat) (frac_part: "nat list option")
  (exp_part: "int option")

datatype NumError = ErrSyntax | ErrRange

text \<open>
  \<open>Number.Int64\<close> is \<open>strconv.ParseInt(text, 10, 64)\<close>: a sign and decimal digits
  only, so a literal with a fraction or an exponent is a syntax error; a value outside
  \<open>int64\<close> is a range error.
\<close>

definition Int64 :: "Number \<Rightarrow> NumError + int64" where
  "Int64 n =
     (if frac_part n = None \<and> exp_part n = None then
        (if negative n then
           (if 2 ^ 63 < int_part n then Inl ErrRange else Inr (word_of_int (- int (int_part n))))
         else
           (if 2 ^ 63 \<le> int_part n then Inl ErrRange else Inr (word_of_nat (int_part n))))
      else Inl ErrSyntax)"

text \<open>
  \<open>Number.Float64\<close> is \<open>strconv.ParseFloat(text, 64)\<close>: the decimal value rounded to
  the nearest \<open>float64\<close>; a value that rounds beyond the largest finite \<open>float64\<close> is
  a range error. \<open>strconv\<close> stops accumulating exponent digits once the exponent has
  reached 10000 (\<open>exp_digits\<close>).
\<close>

fun digits_val :: "nat list \<Rightarrow> nat \<Rightarrow> nat" where
  "digits_val [] acc = acc"
| "digits_val (d # ds) acc = digits_val ds (10 * acc + d)"

fun exp_digits :: "nat \<Rightarrow> nat" where
  "exp_digits e = (if e < 100000 then e else exp_digits (e div 10))"

definition decimal_value :: "Number \<Rightarrow> rat" where
  "decimal_value n =
     (let fd = (case frac_part n of None \<Rightarrow> [] | Some ds \<Rightarrow> ds);
          ex = (case exp_part n of None \<Rightarrow> 0
                | Some e \<Rightarrow> if e < 0 then - int (exp_digits (nat (- e))) else int (exp_digits (nat e)))
      in of_nat (digits_val fd (int_part n)) * 10 powi (ex - int (length fd)))"

definition Float64 :: "Number \<Rightarrow> NumError + float64" where
  "Float64 n =
     (let r = round64 (decimal_value n)
      in if 2 ^ 1024 \<le> r then Inl ErrRange else Inr (Finite (negative n) r))"

text \<open>
  The dynamic values the worker handles: \<open>nil\<close>, \<open>bool\<close>, \<open>float64\<close>, \<open>int64\<close>,
  \<open>string\<close>, \<open>json.Number\<close>, \<open>[]interface{}\<close> and \<open>map[string]interface{}\<close>. A map
  is an association list, one entry per key, in the order a \<open>range\<close> loop visits it.
\<close>

datatype jvalue = JNil | JBool bool | JFloat float64 | JInt int64 | JString string
  | JNumber Number | JArray "jvalue list" | JObject "(string \<times> jvalue) list"

type_synonym anyMap = "(string \<times> jvalue) list"

text \<open>\<open>m[k]\<close>: the zero value \<open>nil\<close> for a missing key (and for a nil map).\<close>

definition index :: "anyMap \<Rightarrow> string \<Rightarrow> jvalue" where
  "index m k = (case map_of m k of None \<Rightarrow> JNil | Some v \<Rightarrow> v)"

text \<open>
  \<open>asInt64\<close>, lines 46-61. \<open>math.Trunc(t) == t\<close> holds for the integral finite values
  and the infinities, not for NaN. The conversion \<open>int64(t)\<close> of a value outside
  \<open>int64\<close> is implementation-dependent in Go; the amd64 result (the minimum \<open>int64\<close>)
  is modelled.
\<close>

definition trunc_eq :: "float64 \<Rightarrow> bool" where
  "trunc_eq t = (case t of Finite s q \<Rightarrow> of_int \<lfloor>q\<rfloor> = q | Infinite s \<Rightarrow> True | NaN \<Rightarrow> False)"

definition int64_of_float64 :: "float64 \<Rightarrow> int64" where
  "int64_of_float64 t =
     (case t of
        Finite s q \<Rightarrow>
          (let i = (if s then - \<lfloor>q\<rfloor> else \<lfloor>q\<rfloor>)
           in if - (2 ^ 63) \<le> i \<and> i < 2 ^ 63 then word_of_int i else word_of_int (- (2 ^ 63)))
      | _ \<Rightarrow> word_of_int (- (2 ^ 63)))"

definition asInt64 :: "jvalue \<Rightarrow> int64 \<times> bool" where
  "asInt64 v =
     (case v of
        JFloat t \<Rightarrow> if trunc_eq t then (int64_of_float64 t, True) else (0, False)
      | JInt t \<Rightarrow> (t, True)
      | JNumber t \<Rightarrow> (case Int64 t of Inr i \<Rightarrow> (i, True) | Inl err \<Rightarrow> (0, False))
      | _ \<Rightarrow> (0, False))"

subsection \<open>Field extraction\<close>

text \<open>
  \<open>fields[k] = v\<close> on a map is \<open>AList.update\<close>. The two \<open>range\<close> loops of
  \<open>extractFields\<close> (lines 72-84 and 87-101) recurse over the entries of the map; each
  step is the loop body, a type switch on the value.
\<close>

fun rangeData :: "anyMap \<Rightarrow> anyMap \<Rightarrow> anyMap" where
  "rangeData [] fields = fields"
| "rangeData ((k, v) # dv) fields =
     rangeData dv
       (case v of
          JFloat vv \<Rightarrow> AList.update k (JFloat vv) fields
        | JBool vv \<Rightarrow> AList.update k (JBool vv) fields
        | JNumber vv \<Rightarrow>
            (case Float64 vv of Inr f \<Rightarrow> AList.update k (JFloat f) fields | Inl err \<Rightarrow> fields)
        | _ \<Rightarrow> fields)"

fun rangeTop :: "anyMap \<Rightarrow> anyMap \<Rightarrow> anyMap" where
  "rangeTop [] fields = fields"
| "rangeTop ((k, v) # m) fields =
     rangeTop m
       (if k = ''data'' \<or> k = ''topic'' \<or> k = ''trace_id'' \<or> k = ''ts_ns'' then fields
        else case v of
          JFloat vv \<Rightarrow> AList.update k (JFloat vv) fields
        | JBool vv \<Rightarrow> AList.update k (JBool vv) fields
        | JNumber vv \<Rightarrow>
            (case Float64 vv of Inr f \<Rightarrow> AList.update k (JFloat f) fields | Inl err \<Rightarrow> fields)
        | _ \<Rightarrow> fields)"

definition extractFields :: "anyMap \<Rightarrow> anyMap \<times> string" where
  "extractFields m =
     (let fields = [];
          topic = (case index m ''topic'' of JString tv \<Rightarrow> tv | _ \<Rightarrow> '''');
          fields = (case index m ''data'' of JObject dv \<Rightarrow> rangeData dv fields | _ \<Rightarrow> fields);
          fields = rangeTop m fields
      in (fields, topic))"

subsection \<open>The message handler\<close>

text \<open>
  The subscription callback of \<open>main\<close>, lines 137-194, as a function from the message
  and what it reads from its surroundings to the list of things it does, in order.
\<close>

record MsgMetadata =
  Timestamp :: Time

text \<open>\<open>Metadata\<close> is \<open>None\<close> when \<open>msg.Metadata()\<close> returns an error.\<close>

record Msg =
  Subject :: string
  Data :: string
  Metadata :: "MsgMetadata option"

record Point =
  point_name :: string
  point_tags :: "(string \<times> string) list"
  point_fields :: anyMap
  point_time :: Time

definition NewPoint :: "string \<Rightarrow> (string \<times> string) list \<Rightarrow> anyMap \<Rightarrow> Time \<Rightarrow> Point" where
  "NewPoint name tgs flds ts = \<lparr>point_name = name, point_tags = tgs, point_fields = flds, point_time = ts\<rparr>"

text \<open>
  What the handler reads: the two readings of \<open>time.Now()\<close> (lines 139 and 156), the
  calendar arithmetic \<open>AddDate\<close> of package \<open>time\<close> (it depends on the local time
  zone), the JSON decoder, which leaves \<open>parsed\<close> nil when it returns an error, and the
  sink: \<open>writeAPI\<close> (the variable \<open>write\<close>) is \<open>None\<close> for the nil interface,
  otherwise \<open>WritePoint\<close>, which returns the text of its error or \<open>None\<close> for nil.
\<close>

record Env =
  Now1 :: Time
  Now2 :: Time
  AddDate :: "Time \<Rightarrow> int \<Rightarrow> int \<Rightarrow> int \<Rightarrow> Time"
  Decode :: "string \<Rightarrow> string + anyMap"
  writeAPI :: "(Point \<Rightarrow> string option) option"

datatype event =
    LogDropBadTimestamp Time string
  | LogDropUnsalvageable Time string
  | LogWriteError string
  | PrintTelemetry string Time string
  | WritePoint Point
  | Ack
  | Nak

text \<open>\<open>strings.Contains\<close>.\<close>

fun Contains :: "string \<Rightarrow> string \<Rightarrow> bool" where
  "Contains [] substr = (substr = [])"
| "Contains (c # s) substr = (prefix substr (c # s) \<or> Contains s substr)"

text \<open>Lines 139-142: the default timestamp.\<close>

definition defaultTimestamp :: "Env \<Rightarrow> Msg \<Rightarrow> Time" where
  "defaultTimestamp env msg =
     (case Metadata msg of Some md \<Rightarrow> Timestamp md | None \<Rightarrow> Now1 env)"

text \<open>Lines 145-149: the decoder's error is discarded.\<close>

definition parsePayload :: "Env \<Rightarrow> Msg \<Rightarrow> anyMap" where
  "parsePayload env msg = (case Decode env (Data msg) of Inr m \<Rightarrow> m | Inl err \<Rightarrow> [])"

text \<open>Lines 151-154: the \<open>ts_ns\<close> override.\<close>

definition resolveTimestamp :: "Env \<Rightarrow> Msg \<Rightarrow> Time" where
  "resolveTimestamp env msg =
     (let ts = defaultTimestamp env msg;
          parsed = parsePayload env msg;
          (v, ok) = asInt64 (index parsed ''ts_ns'')
      in if ok \<and> 0 < sint v then unixAnyToTime v else ts)"

text \<open>Lines 163-165 and 167-172: the field set and the tag set.\<close>

definition buildFields :: "Env \<Rightarrow> Msg \<Rightarrow> anyMap" where
  "buildFields env msg =
     AList.update ''raw'' (JString (Data msg)) (fst (extractFields (parsePayload env msg)))"

definition buildTags :: "Env \<Rightarrow> Msg \<Rightarrow> (string \<times> string) list" where
  "buildTags env msg =
     (let topic = snd (extractFields (parsePayload env msg));
          tgs = [(''subject'', Subject msg)]
      in if topic \<noteq> '''' then AList.update ''topic'' topic tgs else tgs)"

definition handler :: "Env \<Rightarrow> Msg \<Rightarrow> event list" where
  "handler env msg =
     (let ts = resolveTimestamp env msg;
          raw = Data msg;
          now = Now2 env
      in if ts < AddDate env now (- 10) 0 0 \<or> now + 24 * Hour < ts
         then [LogDropBadTimestamp ts (Subject msg), Ack]
         else
           let flds = buildFields env msg;
               tgs = buildTags env msg
           in case writeAPI env of
                Some WritePoint_fn \<Rightarrow>
                  (let p = NewPoint ''telemetry'' tgs flds ts
                   in case WritePoint_fn p of
                        Some err \<Rightarrow>
                          if Contains err ''outside retention policy'' \<or>
                             Contains err ''unprocessable entity''
                          then [WritePoint p, LogDropUnsalvageable ts err, Ack]
                          else [WritePoint p, LogWriteError err, Nak]
                      | None \<Rightarrow> [WritePoint p, Ack])
              | None \<Rightarrow> [PrintTelemetry (Subject msg) ts raw, Ack])"

text \<open>The acknowledgment signals among the handler's actions.\<close>

definition signals :: "event list \<Rightarrow> event list" where
  "signals evs = filter (\<lambda>e. e = Ack \<or> e = Nak) evs"

subsection \<open>Notions of the specification\<close>

text \<open>
  The reserved top-level keys, the values the specification calls numeric or boolean, the
  value a member contributes to the field set (a number contributes its \<open>float64\<close>, and
  nothing when the conversion fails), and the mathematical value of a number literal.
\<close>

definition reserved :: "string \<Rightarrow> bool" where
  "reserved k = (k = ''data'' \<or> k = ''topic'' \<or> k = ''trace_id'' \<or> k = ''ts_ns'')"

definition numeric_or_boolean :: "jvalue \<Rightarrow> bool" where
  "numeric_or_boolean v =
     (case v of JBool b \<Rightarrow> True | JFloat f \<Rightarrow> True | JInt i \<Rightarrow> True | JNumber n \<Rightarrow> True
      | _ \<Rightarrow> False)"

definition scalar_field :: "jvalue \<Rightarrow> jvalue option" where
  "scalar_field v =
     (case v of
        JBool b \<Rightarrow> Some (JBool b)
      | JFloat f \<Rightarrow> Some (JFloat f)
      | JNumber n \<Rightarrow> (case Float64 n of Inr f \<Rightarrow> Some (JFloat f) | Inl err \<Rightarrow> None)
      | _ \<Rightarrow> None)"

definition literal_value :: "Number \<Rightarrow> rat" where
  "literal_value n =
     (let fd = (case frac_part n of None \<Rightarrow> [] | Some ds \<Rightarrow> ds);
          ex = (case exp_part n of None \<Rightarrow> 0 | Some e \<Rightarrow> e)
      in (if negative n then - 1 else 1) * of_nat (digits_val fd (int_part n))
           * 10 powi (ex - int (length fd)))"

text \<open>The window test of line 157, on a resolved timestamp.\<close>

definition out_of_window :: "Env \<Rightarrow> Time \<Rightarrow> bool" where
  "out_of_window env ts = (ts < AddDate env (Now2 env) (- 10) 0 0 \<or> Now2 env + 24 * Hour < ts)"

subsection \<open>Example runs\<close>

text \<open>
  A worker whose clock reads 2026-11-02T00:00:00Z, where ten calendar years back are 3652
  days, with a given decoder result and sink; and a message on \<open>telemetry.arm1\<close> that the
  broker stored one second earlier.
\<close>

definition example_env :: "(string + anyMap) \<Rightarrow> (Point \<Rightarrow> string option) option \<Rightarrow> Env" where
  "example_env decoded sink =
     \<lparr>Now1 = 1793577600000000000, Now2 = 1793577600000020000,
      AddDate = (\<lambda>t years months days. t - 3652 * 24 * Hour),
      Decode = (\<lambda>data. decoded), writeAPI = sink\<rparr>"

definition example_msg :: "string \<Rightarrow> Msg" where
  "example_msg payload =
     \<lparr>Subject = ''telemetry.arm1'', Data = payload,
      Metadata = Some \<lparr>Timestamp = 1793577599000000000\<rparr>\<rparr>"

section \<open>Properties\<close>

subsection \<open>Auxiliary facts\<close>

lemmas run_defs = handler_def resolveTimestamp_def defaultTimestamp_def parsePayload_def
  buildFields_def buildTags_def extractFields_def NewPoint_def asInt64_def Int64_def index_def
  unixAnyToTime_def time_Unix_def Hour_def out_of_window_def example_env_def example_msg_def
  signals_def

text \<open>\<open>Contains\<close> is the contiguous-substring test.\<close>

lemma Contains_sublist: "Contains s substr = sublist substr s"
  by (induction s) (auto simp: sublist_Cons_right)

text \<open>The handler's action list, by control path.\<close>

lemma handler_dropped:
  "out_of_window env (resolveTimestamp env msg) \<Longrightarrow>
   handler env msg = [LogDropBadTimestamp (resolveTimestamp env msg) (Subject msg), Ack]"
  by (simp add: handler_def out_of_window_def Let_def)

lemma handler_disabled:
  "\<not> out_of_window env (resolveTimestamp env msg) \<Longrightarrow> writeAPI env = None \<Longrightarrow>
   handler env msg = [PrintTelemetry (Subject msg) (resolveTimestamp env msg) (Data msg), Ack]"
  by (simp add: handler_def out_of_window_def Let_def)

lemma handler_written:
  "\<not> out_of_window env (resolveTimestamp env msg) \<Longrightarrow> writeAPI env = Some w \<Longrightarrow>
   p = NewPoint ''telemetry'' (buildTags env msg) (buildFields env msg) (resolveTimestamp env msg) \<Longrightarrow>
   handler env msg =
     WritePoint p #
       (case w p of
          None \<Rightarrow> [Ack]
        | Some err \<Rightarrow>
            if Contains err ''outside retention policy'' \<or> Contains err ''unprocessable entity''
            then [LogDropUnsalvageable (resolveTimestamp env msg) err, Ack]
            else [LogWriteError err, Nak])"
  by (simp add: handler_def out_of_window_def Let_def split: option.splits)

lemma WritePoint_in_handler:
  assumes "WritePoint p \<in> set (handler env msg)"
  shows "\<not> out_of_window env (resolveTimestamp env msg) \<and> writeAPI env \<noteq> None \<and>
     p = NewPoint ''telemetry'' (buildTags env msg) (buildFields env msg) (resolveTimestamp env msg)"
proof (cases "out_of_window env (resolveTimestamp env msg)")
  case True
  with assms show ?thesis by (simp add: handler_dropped)
next
  case False
  show ?thesis
  proof (cases "writeAPI env")
    case None
    with False assms show ?thesis by (simp add: handler_disabled)
  next
    case (Some w)
    with False assms show ?thesis
      by (auto simp: handler_written [OF False Some refl] split: option.splits if_splits)
  qed
qed

text \<open>A decoder error leaves the handler with the nil map, which reads like the empty one.\<close>

lemma parsePayload_error: "Decode env (Data msg) = Inl e \<Longrightarrow> parsePayload env msg = []"
  by (simp add: parsePayload_def)

subsection \<open>The validity window\<close>

text \<open>
  Claim C1. When the resolved timestamp is before \<open>now.AddDate(-10, 0, 0)\<close> or after
  \<open>now.Add(24h)\<close>, the handler logs, acknowledges and returns: the action list is exactly
  the log line and one \<open>Ack\<close>, with no sink write. Conversely every point handed to the
  sink carries a timestamp inside the window.
\<close>

theorem out_of_window_acked_not_written:
  "(out_of_window env (resolveTimestamp env msg) \<longrightarrow>
      handler env msg = [LogDropBadTimestamp (resolveTimestamp env msg) (Subject msg), Ack] \<and>
      signals (handler env msg) = [Ack]) \<and>
   (\<forall>p. WritePoint p \<in> set (handler env msg) \<longrightarrow> \<not> out_of_window env (point_time p))"
proof (intro conjI impI allI)
  assume "out_of_window env (resolveTimestamp env msg)"
  then show "handler env msg = [LogDropBadTimestamp (resolveTimestamp env msg) (Subject msg), Ack]"
    by (rule handler_dropped)
  then show "signals (handler env msg) = [Ack]"
    by (simp add: signals_def)
next
  fix p
  assume "WritePoint p \<in> set (handler env msg)"
  then show "\<not> out_of_window env (point_time p)"
    by (auto dest!: WritePoint_in_handler simp: NewPoint_def)
qed

theorem out_of_window_acked_not_written_witness:
  "out_of_window (example_env (Inr [(''ts_ns'', JNumber (Number False 1000000000 None None))]) None)
     (resolveTimestamp
        (example_env (Inr [(''ts_ns'', JNumber (Number False 1000000000 None None))]) None)
        (example_msg ''p1'')) \<and>
   handler (example_env (Inr [(''ts_ns'', JNumber (Number False 1000000000 None None))]) None)
     (example_msg ''p1'') = [LogDropBadTimestamp 1000000000000000000 ''telemetry.arm1'', Ack] \<and>
   WritePoint \<lparr>point_name = ''telemetry'', point_tags = [(''subject'', ''telemetry.arm1'')],
       point_fields = [(''raw'', JString ''p2'')], point_time = 1793577599000000000\<rparr>
     \<in> set (handler (example_env (Inr []) (Some (\<lambda>p. None))) (example_msg ''p2'')) \<and>
   \<not> out_of_window (example_env (Inr []) (Some (\<lambda>p. None))) 1793577599000000000"
  using out_of_window_acked_not_written
      [of "example_env (Inr [(''ts_ns'', JNumber (Number False 1000000000 None None))]) None"
        "example_msg ''p1''"]
    out_of_window_acked_not_written
      [of "example_env (Inr []) (Some (\<lambda>p. None))" "example_msg ''p2''"]
  by (simp add: run_defs)

subsection \<open>Classification of sink failures\<close>

text \<open>
  Claim C3. When \<open>WritePoint\<close> returns an error, the handler treats it as permanent (it
  logs the drop and sends \<open>Ack\<close>) exactly when the error text contains
  \<open>outside retention policy\<close> or \<open>unprocessable entity\<close>; for every other error it logs
  a retry and sends \<open>Nak\<close>. In both cases that is the only signal.
\<close>

theorem sink_failure_classified:
  assumes "writeAPI env = Some w"
    and "WritePoint p \<in> set (handler env msg)"
    and "w p = Some err"
  shows "handler env msg =
      (if sublist ''outside retention policy'' err \<or> sublist ''unprocessable entity'' err
       then [WritePoint p, LogDropUnsalvageable (point_time p) err, Ack]
       else [WritePoint p, LogWriteError err, Nak]) \<and>
     signals (handler env msg) =
      (if sublist ''outside retention policy'' err \<or> sublist ''unprocessable entity'' err
       then [Ack] else [Nak])"
proof -
  from WritePoint_in_handler [OF assms(2)] have
    win: "\<not> out_of_window env (resolveTimestamp env msg)" and
    p: "p = NewPoint ''telemetry'' (buildTags env msg) (buildFields env msg)
          (resolveTimestamp env msg)"
    by simp_all
  have t: "point_time p = resolveTimestamp env msg"
    by (simp add: p NewPoint_def)
  show ?thesis
    using assms(3) by (simp add: handler_written [OF win assms(1) p] t signals_def Contains_sublist)
qed

theorem sink_failure_classified_witness:
  "handler (example_env (Inl ''bad'') (Some (\<lambda>p. Some ''503: connection timeout'')))
     (example_msg ''p3'') =
     [WritePoint \<lparr>point_name = ''telemetry'', point_tags = [(''subject'', ''telemetry.arm1'')],
        point_fields = [(''raw'', JString ''p3'')], point_time = 1793577599000000000\<rparr>,
      LogWriteError ''503: connection timeout'', Nak] \<and>
   signals (handler (example_env (Inl ''bad'') (Some (\<lambda>p. Some ''422: unprocessable entity'')))
     (example_msg ''p3'')) = [Ack]"
proof -
  let ?p = "\<lparr>point_name = ''telemetry'', point_tags = [(''subject'', ''telemetry.arm1'')],
      point_fields = [(''raw'', JString ''p3'')], point_time = 1793577599000000000\<rparr>"
  let ?e1 = "example_env (Inl ''bad'') (Some (\<lambda>p. Some ''503: connection timeout''))"
  let ?e2 = "example_env (Inl ''bad'') (Some (\<lambda>p. Some ''422: unprocessable entity''))"
  have w1: "writeAPI ?e1 = Some (\<lambda>p. Some ''503: connection timeout'')"
    and w2: "writeAPI ?e2 = Some (\<lambda>p. Some ''422: unprocessable entity'')"
    by (simp_all add: example_env_def)
  have in1: "WritePoint ?p \<in> set (handler ?e1 (example_msg ''p3''))"
    and in2: "WritePoint ?p \<in> set (handler ?e2 (example_msg ''p3''))"
    by (simp_all add: run_defs)
  have n1: "\<not> (sublist ''outside retention policy'' ''503: connection timeout'' \<or>
      sublist ''unprocessable entity'' ''503: connection timeout'')"
    by (simp add: Contains_sublist [symmetric])
  have n2: "sublist ''unprocessable entity'' ''422: unprocessable entity''"
    by (simp add: Contains_sublist [symmetric])
  show ?thesis
    using sink_failure_classified [OF w1 in1 refl] sink_failure_classified [OF w2 in2 refl] n1 n2
    by (simp add: signals_def)
qed

subsection \<open>One acknowledgment per delivery\<close>

text \<open>
  Claim C4. Whatever the message, the decoder, the clock and the sink do, the handler
  sends exactly one acknowledgment signal, an \<open>Ack\<close> or a \<open>Nak\<close>. A decoder error does
  not end the run: the handler then does exactly what it does for a payload that decodes
  to the empty object.
\<close>

theorem exactly_one_signal:
  "length (signals (handler env msg)) = 1 \<and>
   (signals (handler env msg) = [Ack] \<or> signals (handler env msg) = [Nak]) \<and>
   (\<forall>e. Decode env (Data msg) = Inl e \<longrightarrow>
      handler env msg = handler (env\<lparr>Decode := \<lambda>data. Inr []\<rparr>) msg)"
proof (intro conjI allI impI)
  show one: "signals (handler env msg) = [Ack] \<or> signals (handler env msg) = [Nak]"
    by (simp add: handler_def Let_def signals_def split: option.splits)
  then show "length (signals (handler env msg)) = 1"
    by auto
next
  fix e
  let ?env = "env\<lparr>Decode := \<lambda>data. Inr []\<rparr>"
  assume "Decode env (Data msg) = Inl e"
  then have p: "parsePayload env msg = parsePayload ?env msg"
    by (simp add: parsePayload_def)
  have d: "defaultTimestamp env msg = defaultTimestamp ?env msg"
    by (simp add: defaultTimestamp_def split: option.splits)
  have r: "resolveTimestamp env msg = resolveTimestamp ?env msg"
    by (simp only: resolveTimestamp_def p d)
  have f: "buildFields env msg = buildFields ?env msg"
    by (simp only: buildFields_def p)
  have t: "buildTags env msg = buildTags ?env msg"
    by (simp only: buildTags_def p)
  have s: "Now2 ?env = Now2 env" "AddDate ?env = AddDate env" "writeAPI ?env = writeAPI env"
    by simp_all
  show "handler env msg = handler ?env msg"
    by (simp only: handler_def r f t s)
qed

theorem exactly_one_signal_witness:
  "Decode (example_env (Inl ''unexpected end of JSON input'') None) (Data (example_msg ''{x''))
     = Inl ''unexpected end of JSON input'' \<and>
   handler (example_env (Inl ''unexpected end of JSON input'') None) (example_msg ''{x'') =
     handler (example_env (Inl ''unexpected end of JSON input'') None
                \<lparr>Decode := \<lambda>data. Inr []\<rparr>) (example_msg ''{x'') \<and>
   signals (handler (example_env (Inl ''unexpected end of JSON input'') None) (example_msg ''{x''))
     = [Ack]"
  using exactly_one_signal
      [of "example_env (Inl ''unexpected end of JSON input'') None" "example_msg ''{x''"]
  by (simp add: run_defs)

subsection \<open>The loops of \<open>extractFields\<close>\<close>

text \<open>Each step of either loop stores the member's scalar value, if it has one.\<close>

lemma rangeData_Cons:
  "rangeData ((k, v) # dv) flds =
     rangeData dv (case scalar_field v of Some x \<Rightarrow> AList.update k x flds | None \<Rightarrow> flds)"
  by (simp add: scalar_field_def split: jvalue.splits sum.splits)

lemma rangeTop_Cons:
  "rangeTop ((k, v) # m) flds =
     rangeTop m (if reserved k then flds
                 else case scalar_field v of Some x \<Rightarrow> AList.update k x flds | None \<Rightarrow> flds)"
  by (simp add: scalar_field_def reserved_def split: jvalue.splits sum.splits)

lemma map_of_rangeData:
  "distinct (map fst dv) \<Longrightarrow>
   map_of (rangeData dv flds) k =
     (case Option.bind (map_of dv k) scalar_field of Some x \<Rightarrow> Some x | None \<Rightarrow> map_of flds k)"
proof (induction dv arbitrary: flds)
  case Nil
  then show ?case by simp
next
  case (Cons e dv)
  obtain k' v where e: "e = (k', v)" by (cases e)
  from Cons.prems e have notin: "map_of dv k' = None" and d: "distinct (map fst dv)"
    by (auto simp: map_of_eq_None_iff)
  show ?case
    unfolding e rangeData_Cons
    using notin by (simp add: Cons.IH [OF d] update_conv' split: option.splits)
qed

lemma map_of_rangeTop:
  "distinct (map fst m) \<Longrightarrow>
   map_of (rangeTop m flds) k =
     (case (if reserved k then None else Option.bind (map_of m k) scalar_field) of
        Some x \<Rightarrow> Some x | None \<Rightarrow> map_of flds k)"
proof (induction m arbitrary: flds)
  case Nil
  then show ?case by simp
next
  case (Cons e m)
  obtain k' v where e: "e = (k', v)" by (cases e)
  from Cons.prems e have notin: "map_of m k' = None" and d: "distinct (map fst m)"
    by (auto simp: map_of_eq_None_iff)
  show ?case
    unfolding e rangeTop_Cons
    using notin by (simp add: Cons.IH [OF d] update_conv' split: option.splits)
qed

subsection \<open>Conversion to \<open>float64\<close>\<close>

text \<open>\<open>floor_log2\<close> is the binary exponent of a positive rational.\<close>

lemma floor_log2_bounds:
  assumes "0 < q"
  shows "2 powi floor_log2 q \<le> q \<and> q < 2 powi (floor_log2 q + 1)"
proof (cases "1 \<le> q")
  case True
  define x where "x = \<lfloor>q\<rfloor>"
  define n where "n = nat (bitlen x - 1)"
  from True have xpos: "0 < x" by (simp add: x_def)
  then have b: "1 \<le> bitlen x" by (simp add: bitlen_ge_iff_power)
  from bitlen_bounds [OF xpos] have lo: "2 ^ n \<le> x" and hi: "x < 2 ^ nat (bitlen x)"
    by (simp_all add: n_def)
  from b have n: "bitlen x - 1 = int n" "bitlen x - 1 + 1 = int (Suc n)" "nat (bitlen x) = Suc n"
    by (simp_all add: n_def)
  have "(of_int (2 ^ n) :: rat) \<le> of_int x"
    using lo by (simp only: of_int_le_iff)
  also have "\<dots> \<le> q" by (simp add: x_def)
  finally have 1: "(2::rat) ^ n \<le> q" by simp
  from hi have "x + 1 \<le> 2 ^ Suc n" by (simp add: n)
  then have "(of_int (x + 1) :: rat) \<le> of_int (2 ^ Suc n)"
    by (simp only: of_int_le_iff)
  moreover have "q < of_int (x + 1)"
    unfolding x_def by linarith
  ultimately have 2: "q < 2 ^ Suc n" by simp
  have e: "(2::rat) powi (int n + 1) = 2 ^ Suc n"
    by (simp add: power_int_add)
  from True 1 2 show ?thesis
    unfolding floor_log2_def x_def [symmetric] by (simp only: if_True n(1) e power_int_of_nat)
next
  case False
  define y where "y = \<lceil>1 / q\<rceil> - 1"
  define b where "b = nat (bitlen y)"
  from False assms have r: "1 < 1 / q" by simp
  then have ypos: "0 < y" unfolding y_def by linarith
  then have b1: "1 \<le> bitlen y" by (simp add: bitlen_ge_iff_power)
  then obtain c where c: "b = Suc c" unfolding b_def by (cases "nat (bitlen y)") simp_all
  from bitlen_bounds [OF ypos] b1 have lo: "2 ^ c \<le> y" and hi: "y < 2 ^ b"
    by (simp_all add: b_def [symmetric] c nat_diff_distrib')
  have bl: "bitlen y = int b" using b1 by (simp add: b_def)
  from hi have "y + 1 \<le> 2 ^ b" by simp
  then have "(of_int (y + 1) :: rat) \<le> of_int (2 ^ b)"
    by (simp only: of_int_le_iff)
  moreover have "1 / q \<le> of_int (y + 1)"
    unfolding y_def by simp
  ultimately have "1 / q \<le> 2 ^ b" by simp
  then have 1: "1 / 2 ^ b \<le> q"
    using assms by (simp add: field_simps)
  have "(of_int (2 ^ c) :: rat) \<le> of_int y"
    using lo by (simp only: of_int_le_iff)
  then have "(2::rat) ^ c \<le> of_int y"
    by simp
  moreover have "of_int y < 1 / q"
    unfolding y_def by linarith
  ultimately have "2 ^ c < 1 / q" by (rule le_less_trans)
  then have 2: "q < 1 / 2 ^ c"
    using assms by (simp add: field_simps)
  have e1: "(2::rat) powi (- int b) = 1 / 2 ^ b"
    by (simp add: power_int_minus field_simps)
  have e2: "(2::rat) powi (- int b + 1) = 1 / 2 ^ c"
    by (simp add: c power_int_minus field_simps)
  from False 1 2 show ?thesis
    unfolding floor_log2_def y_def [symmetric] by (simp only: if_False bl e1 e2)
qed

text \<open>Rounding never decreases a value below a power of two that it reaches.\<close>

lemma round_half_even_ge_floor: "\<lfloor>q\<rfloor> \<le> round_half_even q"
  by (simp add: round_half_even_def Let_def)

lemma round64_ge_power:
  assumes N: "52 \<le> N" and q: "2 ^ N \<le> q"
  shows "2 ^ N \<le> round64 q"
proof -
  define x where "x = \<lfloor>q\<rfloor>"
  define fl where "fl = bitlen x - 1"
  have "(1::rat) \<le> 2 ^ N" by simp
  then have q1: "1 \<le> q" using q by (rule order_trans)
  then have q0: "q \<noteq> 0" by auto
  have x: "2 ^ N \<le> x"
    unfolding x_def using q by (simp add: le_floor_iff)
  have "(0::int) < 2 ^ N" by simp
  then have xpos: "0 < x" using x by (rule less_le_trans)
  have "nat (int N + 1) - 1 = N" by simp
  then have "int N + 1 \<le> bitlen x"
    using x by (simp only: bitlen_ge_iff_power) simp
  then have fl: "int N \<le> fl"
    by (simp add: fl_def)
  have flog: "floor_log2 q = fl"
    using q1 by (simp add: floor_log2_def fl_def x_def)
  define k where "k = nat (fl - 52)"
  have p: "max (floor_log2 q - 52) (- 1074) = int k"
    using fl N by (simp add: flog k_def)
  have "(2::int) ^ nat fl \<le> x"
    using bitlen_bounds [OF xpos] by (simp add: fl_def)
  then have "(of_int ((2::int) ^ nat fl) :: rat) \<le> of_int x"
    by (simp only: of_int_le_iff)
  also have "\<dots> \<le> q"
    by (simp add: x_def)
  finally have lo: "(2::rat) ^ nat fl \<le> q"
    by simp
  have split: "nat fl = k + 52"
    using fl N by (simp add: k_def)
  have "(2::rat) ^ 52 * 2 ^ k \<le> q"
    using lo by (simp only: split power_add mult.commute)
  then have "(2::rat) ^ 52 \<le> q / 2 ^ k"
    by (simp add: pos_le_divide_eq)
  then have "of_int ((2::int) ^ 52) \<le> q / 2 ^ k"
    by simp
  then have "(2::int) ^ 52 \<le> \<lfloor>q / 2 ^ k\<rfloor>"
    by (simp only: le_floor_iff)
  then have r: "(2::int) ^ 52 \<le> round_half_even (q / 2 ^ k)"
    using round_half_even_ge_floor [of "q / 2 ^ k"] by (rule order_trans)
  have "N \<le> k + 52"
    using fl N by (simp add: k_def)
  then have "(2::rat) ^ N \<le> 2 ^ (k + 52)"
    by (intro power_increasing) simp_all
  also have "\<dots> = of_int (2 ^ 52) * 2 ^ k"
    by (simp only: power_add mult.commute of_int_power of_int_numeral)
  also have "\<dots> \<le> of_int (round_half_even (q / 2 ^ k)) * 2 ^ k"
    using r by (intro mult_right_mono) (simp_all only: of_int_le_iff, simp)
  finally show ?thesis
    using q0 by (simp add: round64_def p Let_def)
qed

text \<open>So a literal of value \<open>2^1024\<close> or more does not convert.\<close>

lemma Float64_overflow:
  assumes "2 ^ 1024 \<le> decimal_value n"
  shows "Float64 n = Inl ErrRange"
proof -
  have "(52::nat) \<le> 1024" by simp
  then have "2 ^ 1024 \<le> round64 (decimal_value n)"
    using assms by (rule round64_ge_power)
  then show ?thesis
    unfolding Float64_def Let_def by (simp only: if_True)
qed

text \<open>Conversions of the literals \<open>2\<close>, \<open>1.5\<close> and \<open>1e999\<close>.\<close>

lemma bitlen_1: "bitlen 1 = 1"
  by (rule antisym) (simp_all add: bitlen_le_iff_power bitlen_ge_iff_power)

lemma bitlen_2: "bitlen 2 = 2"
  by (rule antisym) (simp_all add: bitlen_le_iff_power bitlen_ge_iff_power)

lemma floor_3_2: "\<lfloor>3 / 2 :: rat\<rfloor> = 1"
  by (simp add: floor_eq_iff)

lemma round64_2: "round64 2 = 2"
  by (simp add: round64_def floor_log2_def round_half_even_def Let_def bitlen_2 power_int_minus)

lemma round64_3_2: "round64 (3 / 2) = 3 / 2"
  by (simp add: round64_def floor_log2_def round_half_even_def Let_def bitlen_1 power_int_minus
      floor_3_2)

lemma Float64_2: "Float64 (Number False 2 None None) = Inr (Finite False 2)"
  by (simp add: Float64_def decimal_value_def round64_2)

lemma Float64_1_5: "Float64 (Number False 1 (Some [5]) None) = Inr (Finite False (3 / 2))"
  by (simp add: Float64_def decimal_value_def round64_3_2 power_int_minus)

lemma Float64_1e999: "Float64 (Number False 1 None (Some 999)) = Inl ErrRange"
proof (rule Float64_overflow)
  have "(2::rat) ^ 1024 \<le> 2 ^ (3 * 999)" by (intro power_increasing) simp_all
  also have "\<dots> = (2 ^ 3) ^ 999" by (simp only: power_mult)
  also have "\<dots> \<le> (10::rat) ^ 999"
    by (intro power_mono) simp_all
  also have "\<dots> = decimal_value (Number False 1 None (Some 999))"
    unfolding decimal_value_def by (simp del: power_numeral)
  finally show "2 ^ 1024 \<le> decimal_value (Number False 1 None (Some 999))" .
qed

subsection \<open>The extracted field set\<close>

text \<open>
  Claim C5, as the code has it. In a map with one entry per key, the extracted field set
  holds under a key \<open>k\<close>: the scalar value of the top-level member \<open>k\<close>, when \<open>k\<close> is not
  reserved and that member is a boolean or a number that converts to \<open>float64\<close>;
  otherwise the scalar value of the member \<open>k\<close> of the \<open>data\<close> object, when there is one;
  otherwise nothing. So strings, objects, arrays and nil are ignored, and a top-level
  scalar is never replaced by a member of \<open>data\<close>.
\<close>

theorem extractFields_members:
  assumes "distinct (map fst m)"
    and "\<forall>dv. index m ''data'' = JObject dv \<longrightarrow> distinct (map fst dv)"
  shows "map_of (fst (extractFields m)) k =
     (case (if reserved k then None else Option.bind (map_of m k) scalar_field) of
        Some x \<Rightarrow> Some x
      | None \<Rightarrow> (case index m ''data'' of
                   JObject dv \<Rightarrow> Option.bind (map_of dv k) scalar_field
                 | _ \<Rightarrow> None))"
  using assms
  by (simp add: extractFields_def map_of_rangeTop map_of_rangeData
      split: jvalue.splits option.splits)

theorem extractFields_members_witness:
  "distinct (map fst [(''x'', JNumber (Number False 2 None None)), (''topic'', JString ''arm''),
       (''data'', JObject [(''x'', JNumber (Number False 1 (Some [5]) None)), (''y'', JBool True)])]) \<and>
   index [(''x'', JNumber (Number False 2 None None)), (''topic'', JString ''arm''),
       (''data'', JObject [(''x'', JNumber (Number False 1 (Some [5]) None)), (''y'', JBool True)])]
     ''data'' = JObject [(''x'', JNumber (Number False 1 (Some [5]) None)), (''y'', JBool True)] \<and>
   distinct (map fst [(''x'', JNumber (Number False 1 (Some [5]) None)), (''y'', JBool True)]) \<and>
   map_of (fst (extractFields
      [(''x'', JNumber (Number False 2 None None)), (''topic'', JString ''arm''),
       (''data'', JObject [(''x'', JNumber (Number False 1 (Some [5]) None)), (''y'', JBool True)])]))
     ''x'' = Some (JFloat (Finite False 2))"
  using extractFields_members
      [of "[(''x'', JNumber (Number False 2 None None)), (''topic'', JString ''arm''),
            (''data'', JObject [(''x'', JNumber (Number False 1 (Some [5]) None)), (''y'', JBool True)])]"
        "''x''"]
  by (simp add: index_def reserved_def scalar_field_def Float64_2)

text \<open>
  The claim as stated fails for a number outside the range of \<open>float64\<close>: the payload
  \<open>{"x": 1e999}\<close> has a numeric top-level member under a key that is not reserved, and
  the field set comes out empty, because \<open>Float64\<close> returns an error (line 97).
\<close>

theorem extractFields_skips_unconvertible_number:
  "numeric_or_boolean (JNumber (Number False 1 None (Some 999))) \<and> \<not> reserved ''x'' \<and>
   extractFields [(''x'', JNumber (Number False 1 None (Some 999)))] = ([], [])"
  by (simp add: numeric_or_boolean_def reserved_def extractFields_def index_def Float64_1e999
      del: One_nat_def)

subsection \<open>The \<open>ts_ns\<close> override\<close>

lemma sint_in_range:
  "- (2 ^ 63) \<le> i \<Longrightarrow> i < 2 ^ 63 \<Longrightarrow> sint (word_of_int i :: int64) = i"
  by (simp add: sint_sbintrunc' signed_take_bit_int_eq_self)

text \<open>
  \<open>Int64\<close> returns a positive value only for a literal that is a plain string of digits,
  and then it is the literal's value.
\<close>

lemma Int64_positive:
  assumes "Int64 n = Inr v" and "0 < sint v"
  shows "frac_part n = None \<and> exp_part n = None \<and> \<not> negative n \<and> sint v = int (int_part n)"
proof -
  from assms(1) have syn: "frac_part n = None" "exp_part n = None"
    by (auto simp: Int64_def split: if_splits)
  show ?thesis
  proof (cases "negative n")
    case True
    with assms(1) syn have le: "int_part n \<le> 2 ^ 63" and v: "v = word_of_int (- int (int_part n))"
      by (auto simp: Int64_def split: if_splits)
    from le have "int (int_part n) \<le> 2 ^ 63"
      by (metis of_nat_le_iff of_nat_numeral of_nat_power)
    then have "sint v = - int (int_part n)"
      unfolding v by (intro sint_in_range) auto
    with assms(2) show ?thesis by simp
  next
    case False
    with assms(1) syn have lt: "int_part n < 2 ^ 63" and v: "v = word_of_nat (int_part n)"
      by (auto simp: Int64_def split: if_splits)
    from lt have "int (int_part n) < 2 ^ 63"
      by (metis of_nat_less_iff of_nat_numeral of_nat_power)
    then have "sint v = int (int_part n)"
      unfolding v using sint_in_range [of "int (int_part n)"] by simp
    with False syn show ?thesis by simp
  qed
qed

lemma literal_value_integer:
  "frac_part n = None \<Longrightarrow> exp_part n = None \<Longrightarrow> \<not> negative n \<Longrightarrow>
   literal_value n = of_nat (int_part n)"
  by (simp add: literal_value_def)

text \<open>
  Claim C9. When \<open>ts_ns\<close> is a JSON number whose value is zero or negative, or that is
  written with a fraction, or whose value is not an integer, no override takes place:
  the resolved timestamp is the default one, the broker's timestamp of the message
  whenever its metadata can be read.
\<close>

theorem nonpositive_or_fractional_override_ignored:
  assumes ts: "index (parsePayload env msg) ''ts_ns'' = JNumber n"
    and bad: "literal_value n \<le> 0 \<or> frac_part n \<noteq> None \<or> literal_value n \<notin> \<int>"
  shows "resolveTimestamp env msg = defaultTimestamp env msg \<and>
     (\<forall>md. Metadata msg = Some md \<longrightarrow> resolveTimestamp env msg = Timestamp md)"
proof -
  have "resolveTimestamp env msg = defaultTimestamp env msg"
  proof (cases "Int64 n")
    case (Inl err)
    with ts show ?thesis by (simp add: resolveTimestamp_def asInt64_def)
  next
    case (Inr v)
    have "\<not> 0 < sint v"
    proof
      assume pos: "0 < sint v"
      from Int64_positive [OF Inr pos] have
        syn: "frac_part n = None" "exp_part n = None" "\<not> negative n"
        and v: "sint v = int (int_part n)"
        by simp_all
      from syn have lv: "literal_value n = of_nat (int_part n)" by (rule literal_value_integer)
      from pos v have "0 < int_part n" by simp
      with lv have "0 < literal_value n" by simp
      moreover from lv have "literal_value n \<in> \<int>" by simp
      ultimately show False using bad syn by simp
    qed
    with ts Inr show ?thesis by (simp add: resolveTimestamp_def asInt64_def)
  qed
  then show ?thesis by (simp add: defaultTimestamp_def)
qed

theorem nonpositive_or_fractional_override_ignored_witness:
  "index (parsePayload (example_env (Inr [(''ts_ns'', JNumber (Number True 5 None None))]) None)
      (example_msg ''p4'')) ''ts_ns'' = JNumber (Number True 5 None None) \<and>
   literal_value (Number True 5 None None) \<le> 0 \<and>
   Metadata (example_msg ''p4'') = Some \<lparr>Timestamp = 1793577599000000000\<rparr> \<and>
   resolveTimestamp (example_env (Inr [(''ts_ns'', JNumber (Number True 5 None None))]) None)
      (example_msg ''p4'') = 1793577599000000000 \<and>
   index (parsePayload (example_env (Inr [(''ts_ns'', JNumber (Number False 2 (Some [5]) None))]) None)
      (example_msg ''p5'')) ''ts_ns'' = JNumber (Number False 2 (Some [5]) None) \<and>
   frac_part (Number False 2 (Some [5]) None) \<noteq> None \<and>
   literal_value (Number False 2 (Some [5]) None) \<notin> \<int> \<and>
   resolveTimestamp (example_env (Inr [(''ts_ns'', JNumber (Number False 2 (Some [5]) None))]) None)
      (example_msg ''p5'') = 1793577599000000000"
proof -
  have h1: "index (parsePayload (example_env (Inr [(''ts_ns'', JNumber (Number True 5 None None))]) None)
      (example_msg ''p4'')) ''ts_ns'' = JNumber (Number True 5 None None)"
    and h2: "index (parsePayload
      (example_env (Inr [(''ts_ns'', JNumber (Number False 2 (Some [5]) None))]) None)
      (example_msg ''p5'')) ''ts_ns'' = JNumber (Number False 2 (Some [5]) None)"
    by (simp_all add: index_def parsePayload_def example_env_def)
  have b1: "literal_value (Number True 5 None None) \<le> 0"
    by (simp add: literal_value_def)
  have lv: "literal_value (Number False 2 (Some [5]) None) = 5 / 2"
    by (simp add: literal_value_def power_int_minus)
  have nonint: "(5 / 2 :: rat) \<notin> \<int>"
  proof
    assume "(5 / 2 :: rat) \<in> \<int>"
    then obtain i :: int where "(5 / 2 :: rat) = of_int i" by (auto elim: Ints_cases)
    then have "(5 :: rat) = of_int (2 * i)" by simp
    then have "(5 :: int) = 2 * i" by (metis of_int_eq_iff of_int_numeral)
    then show False by presburger
  qed
  have b2: "literal_value (Number False 2 (Some [5]) None) \<notin> \<int>"
    unfolding lv by (rule nonint)
  show ?thesis
    using nonpositive_or_fractional_override_ignored [OF h1 disjI1 [OF b1]]
      nonpositive_or_fractional_override_ignored [OF h2 disjI2 [OF disjI2 [OF b2]]] h1 h2 b1 b2
    by (simp add: example_msg_def)
qed

subsection \<open>The record handed to the sink\<close>

lemma extractFields_topic:
  "snd (extractFields m) = (case index m ''topic'' of JString tv \<Rightarrow> tv | _ \<Rightarrow> '''')"
  by (simp add: extractFields_def)

text \<open>
  Claim C6. Every point the handler passes to \<open>WritePoint\<close> has the measurement name
  \<open>telemetry\<close>, a field set that is not empty and binds \<open>raw\<close> to the payload as text,
  a tag set that binds \<open>subject\<close> to the message subject, and a \<open>topic\<close> tag exactly
  when the extracted topic is not empty, bound to that topic.
\<close>

theorem written_point_shape:
  assumes "WritePoint p \<in> set (handler env msg)"
  shows "point_name p = ''telemetry'' \<and>
     point_fields p \<noteq> [] \<and>
     map_of (point_fields p) ''raw'' = Some (JString (Data msg)) \<and>
     map_of (point_tags p) ''subject'' = Some (Subject msg) \<and>
     map_of (point_tags p) ''topic'' =
       (if snd (extractFields (parsePayload env msg)) = '''' then None
        else Some (snd (extractFields (parsePayload env msg))))"
proof -
  from WritePoint_in_handler [OF assms] have
    p: "p = NewPoint ''telemetry'' (buildTags env msg) (buildFields env msg)
          (resolveTimestamp env msg)"
    by simp
  have raw: "map_of (buildFields env msg) ''raw'' = Some (JString (Data msg))"
    by (simp add: buildFields_def update_conv')
  then have "buildFields env msg \<noteq> []"
    by auto
  with raw show ?thesis
    by (simp add: p NewPoint_def buildTags_def Let_def)
qed

theorem written_point_shape_witness:
  "WritePoint
     \<lparr>point_name = ''telemetry'',
      point_tags = [(''subject'', ''telemetry.arm1''), (''topic'', ''arm'')],
      point_fields = [(''x'', JFloat (Finite False (3 / 2))), (''raw'', JString ''payload A'')],
      point_time = 1793577599000000000\<rparr>
     \<in> set (handler
       (example_env
          (Inr [(''data'', JObject [(''x'', JNumber (Number False 1 (Some [5]) None))]),
                (''topic'', JString ''arm'')])
          (Some (\<lambda>p. None)))
       (example_msg ''payload A'')) \<and>
   snd (extractFields (parsePayload
       (example_env
          (Inr [(''data'', JObject [(''x'', JNumber (Number False 1 (Some [5]) None))]),
                (''topic'', JString ''arm'')])
          (Some (\<lambda>p. None)))
       (example_msg ''payload A''))) = ''arm''"
proof -
  let ?env = "example_env
      (Inr [(''data'', JObject [(''x'', JNumber (Number False 1 (Some [5]) None))]),
            (''topic'', JString ''arm'')])
      (Some (\<lambda>p. None))"
  let ?p = "\<lparr>point_name = ''telemetry'',
      point_tags = [(''subject'', ''telemetry.arm1''), (''topic'', ''arm'')],
      point_fields = [(''x'', JFloat (Finite False (3 / 2))), (''raw'', JString ''payload A'')],
      point_time = 1793577599000000000\<rparr>"
  have run: "handler ?env (example_msg ''payload A'') = [WritePoint ?p, Ack]"
    by (simp add: run_defs Float64_1_5 del: One_nat_def)
  then have "WritePoint ?p \<in> set (handler ?env (example_msg ''payload A''))"
    by simp
  from this written_point_shape [OF this] show ?thesis
    by (simp add: parsePayload_def example_env_def example_msg_def extractFields_topic index_def)
qed

subsection \<open>Payloads without structured fields\<close>

lemma rangeTop_no_scalars:
  "\<forall>(k, v) \<in> set m. \<not> numeric_or_boolean v \<Longrightarrow> rangeTop m flds = flds"
  by (induction m arbitrary: flds)
    (auto simp: numeric_or_boolean_def split: jvalue.splits)

lemma asInt64_not_numeric: "\<not> numeric_or_boolean v \<Longrightarrow> asInt64 v = (0, False)"
  by (auto simp: numeric_or_boolean_def asInt64_def split: jvalue.splits)

lemma index_no_scalars:
  assumes "\<forall>(k, v) \<in> set m. \<not> numeric_or_boolean v"
  shows "\<not> numeric_or_boolean (index m k)"
proof (cases "map_of m k")
  case None
  then show ?thesis by (simp add: index_def numeric_or_boolean_def)
next
  case (Some v)
  then have "(k, v) \<in> set m" by (rule map_of_SomeD)
  with assms Some show ?thesis by (auto simp: index_def)
qed

text \<open>
  Claim C7. When the decoder returns an error, or returns a map without a \<open>data\<close> member
  whose members are neither numbers nor booleans, nothing overrides the default
  timestamp (the broker's, whenever the metadata can be read), and the field set the
  handler builds is the single entry \<open>raw\<close> holding the payload; when that timestamp passes
  the window test and a sink is configured, the point with exactly this field set and
  timestamp is handed to the sink.
\<close>

theorem payload_without_fields:
  assumes "(\<exists>e. Decode env (Data msg) = Inl e) \<or>
     (\<exists>m. Decode env (Data msg) = Inr m \<and> map_of m ''data'' = None \<and>
          (\<forall>(k, v) \<in> set m. \<not> numeric_or_boolean v))"
  shows "resolveTimestamp env msg = defaultTimestamp env msg \<and>
     (\<forall>md. Metadata msg = Some md \<longrightarrow> resolveTimestamp env msg = Timestamp md) \<and>
     buildFields env msg = [(''raw'', JString (Data msg))] \<and>
     (\<forall>p. WritePoint p \<in> set (handler env msg) \<longrightarrow>
        point_fields p = [(''raw'', JString (Data msg))] \<and>
        point_time p = defaultTimestamp env msg) \<and>
     (\<forall>w. \<not> out_of_window env (defaultTimestamp env msg) \<and> writeAPI env = Some w \<longrightarrow>
        WritePoint (NewPoint ''telemetry'' (buildTags env msg) [(''raw'', JString (Data msg))]
          (defaultTimestamp env msg)) \<in> set (handler env msg))"
proof -
  let ?m = "parsePayload env msg"
  from assms have m: "map_of ?m ''data'' = None \<and> (\<forall>(k, v) \<in> set ?m. \<not> numeric_or_boolean v)"
    by (auto simp: parsePayload_def)
  then have "asInt64 (index ?m ''ts_ns'') = (0, False)"
    by (intro asInt64_not_numeric index_no_scalars) simp
  then have ts: "resolveTimestamp env msg = defaultTimestamp env msg"
    by (simp add: resolveTimestamp_def)
  from m have "fst (extractFields ?m) = []"
    by (simp add: extractFields_def index_def rangeTop_no_scalars)
  then have flds: "buildFields env msg = [(''raw'', JString (Data msg))]"
    by (simp add: buildFields_def)
  have written: "point_fields p = [(''raw'', JString (Data msg))] \<and>
      point_time p = defaultTimestamp env msg"
    if "WritePoint p \<in> set (handler env msg)" for p
    using WritePoint_in_handler [OF that] by (simp add: NewPoint_def flds ts)
  have continues: "WritePoint (NewPoint ''telemetry'' (buildTags env msg)
      [(''raw'', JString (Data msg))] (defaultTimestamp env msg)) \<in> set (handler env msg)"
    if "\<not> out_of_window env (defaultTimestamp env msg)" and "writeAPI env = Some w" for w
  proof -
    from that(1) have "\<not> out_of_window env (resolveTimestamp env msg)" by (simp add: ts)
    from handler_written [OF this that(2) refl] show ?thesis by (simp add: flds ts)
  qed
  from ts flds written continues show ?thesis
    by (auto simp: defaultTimestamp_def)
qed

theorem payload_without_fields_witness:
  "Decode (example_env (Inl ''invalid character'') (Some (\<lambda>p. None))) (Data (example_msg ''not json''))
     = Inl ''invalid character'' \<and>
   Metadata (example_msg ''not json'') = Some \<lparr>Timestamp = 1793577599000000000\<rparr> \<and>
   resolveTimestamp (example_env (Inl ''invalid character'') (Some (\<lambda>p. None)))
     (example_msg ''not json'') = 1793577599000000000 \<and>
   \<not> out_of_window (example_env (Inl ''invalid character'') (Some (\<lambda>p. None))) 1793577599000000000 \<and>
   WritePoint
     \<lparr>point_name = ''telemetry'', point_tags = [(''subject'', ''telemetry.arm1'')],
      point_fields = [(''raw'', JString ''not json'')], point_time = 1793577599000000000\<rparr>
     \<in> set (handler (example_env (Inl ''invalid character'') (Some (\<lambda>p. None)))
         (example_msg ''not json'')) \<and>
   Decode (example_env (Inr [(''topic'', JString ''arm''), (''note'', JString ''idle'')]) None)
     (Data (example_msg ''payload B'')) = Inr [(''topic'', JString ''arm''), (''note'', JString ''idle'')] \<and>
   map_of [(''topic'', JString ''arm''), (''note'', JString ''idle'')] ''data'' = None \<and>
   \<not> numeric_or_boolean (JString ''arm'') \<and> \<not> numeric_or_boolean (JString ''idle'') \<and>
   buildFields (example_env (Inr [(''topic'', JString ''arm''), (''note'', JString ''idle'')]) None)
     (example_msg ''payload B'') = [(''raw'', JString ''payload B'')]"
proof -
  let ?e1 = "example_env (Inl ''invalid character'') (Some (\<lambda>p. None))"
  let ?e2 = "example_env (Inr [(''topic'', JString ''arm''), (''note'', JString ''idle'')]) None"
  have h1: "(\<exists>e. Decode ?e1 (Data (example_msg ''not json'')) = Inl e) \<or>
     (\<exists>m. Decode ?e1 (Data (example_msg ''not json'')) = Inr m \<and> map_of m ''data'' = None \<and>
          (\<forall>(k, v) \<in> set m. \<not> numeric_or_boolean v))"
    by (simp add: example_env_def)
  have h2: "(\<exists>e. Decode ?e2 (Data (example_msg ''payload B'')) = Inl e) \<or>
     (\<exists>m. Decode ?e2 (Data (example_msg ''payload B'')) = Inr m \<and> map_of m ''data'' = None \<and>
          (\<forall>(k, v) \<in> set m. \<not> numeric_or_boolean v))"
    by (simp add: example_env_def numeric_or_boolean_def)
  have w: "\<not> out_of_window ?e1 (defaultTimestamp ?e1 (example_msg ''not json'')) \<and>
      writeAPI ?e1 = Some (\<lambda>p. None)"
    by (simp add: run_defs)
  from payload_without_fields [OF h1] w payload_without_fields [OF h2] show ?thesis
    by (simp add: run_defs numeric_or_boolean_def)
qed

subsection \<open>A payload member named \<open>raw\<close>\<close>












subsection \<open>Unit bands of the override\<close>

text \<open>
  The switch of \<open>unixAnyToTime\<close> selects the unit by the four inequalities; the products
  in the microsecond and millisecond branches are \<open>int64\<close> products.
\<close>

lemma unixAnyToTime_bands:
  "unixAnyToTime ts =
     (if 100000000000000000 \<le> sint ts then sint ts
      else if 100000000000000 \<le> sint ts then sint (ts * 1000)
      else if 100000000000 \<le> sint ts then sint (ts * 1000000)
      else sint ts * 1000000000)"
  by (simp add: unixAnyToTime_def time_Unix_def)

text \<open>Where the product fits into an \<open>int64\<close>, the result is the exact instant.\<close>

lemma unixAnyToTime_exact:
  assumes "0 < sint ts"
  shows "100000000000000000 \<le> sint ts \<Longrightarrow> unixAnyToTime ts = sint ts"
    and "100000000000000 \<le> sint ts \<Longrightarrow> sint ts \<le> 9223372036854775 \<Longrightarrow>
      unixAnyToTime ts = sint ts * 1000"
    and "100000000000 \<le> sint ts \<Longrightarrow> sint ts \<le> 9223372036854 \<Longrightarrow>
      unixAnyToTime ts = sint ts * 1000000"
    and "sint ts < 100000000000 \<Longrightarrow> unixAnyToTime ts = sint ts * 1000000000"
  using assms
  by (simp_all add: unixAnyToTime_bands sint_word_mult signed_take_bit_int_eq_self)

text \<open>
  Claim C2, at the value \<open>1e17 - 1\<close> that the claim names and at \<open>20240321673709552\<close>.
  Both lie in the microsecond band. The product with 1000 leaves \<open>int64\<close> and wraps
  around: the first resolves to an instant in the year 2216 instead of 99999999999999999
  microseconds after the epoch, the second to 2026-11-02T00:00:00.000000384Z, which a worker
  running on that day accepts and hands to the sink.
\<close>

theorem unixAnyToTime_microseconds_wrap:
  "100000000000000 \<le> sint (99999999999999999 :: int64) \<and>
   sint (99999999999999999 :: int64) < 100000000000000000 \<and>
   unixAnyToTime 99999999999999999 = 7766279631452240920 \<and>
   unixAnyToTime 99999999999999999 \<noteq> sint (99999999999999999 :: int64) * 1000 \<and>
   unixAnyToTime 20240321673709552 = 1793577600000000384 \<and>
   handler (example_env (Inr [(''ts_ns'', JNumber (Number False 20240321673709552 None None))])
       (Some (\<lambda>p. None))) (example_msg ''payload W'') =
     [WritePoint \<lparr>point_name = ''telemetry'', point_tags = [(''subject'', ''telemetry.arm1'')],
        point_fields = [(''raw'', JString ''payload W'')], point_time = 1793577600000000384\<rparr>,
      Ack]"
  by (simp add: run_defs)

subsection \<open>Scenario C\<close>

text \<open>
  Claim C8 as stated fails in its first part: \<open>99999999999999999\<close> is \<open>1e17 - 1\<close>, below
  the nanosecond bound, and the resolved time is not that number of nanoseconds.
\<close>

theorem scenario_C_not_nanoseconds:
  "\<not> 100000000000000000 \<le> sint (99999999999999999 :: int64) \<and>
   unixAnyToTime 99999999999999999 \<noteq> time_Unix 0 99999999999999999"
  by (simp add: unixAnyToTime_def time_Unix_def)

text \<open>
  Claim C8, as the code has it. With \<open>ts_ns = 99999999999999999\<close> the override applies
  and takes the microsecond branch of the switch; on any worker whose clock is before
  the year 2100 the resolved time is later than \<open>now + 24h\<close>, so the handler logs the
  drop, sends its one \<open>Ack\<close> and does not call the sink.
\<close>

theorem scenario_C_dropped:
  assumes ts: "index (parsePayload env msg) ''ts_ns'' =
      JNumber (Number False 99999999999999999 None None)"
    and clock: "Now2 env \<le> 4102444800000000000"
  shows "resolveTimestamp env msg = time_Unix 0 (99999999999999999 * 1000) \<and>
     Now2 env + 24 * Hour < resolveTimestamp env msg \<and>
     handler env msg = [LogDropBadTimestamp (resolveTimestamp env msg) (Subject msg), Ack] \<and>
     signals (handler env msg) = [Ack] \<and>
     (\<forall>p. WritePoint p \<notin> set (handler env msg))"
proof -
  have r: "resolveTimestamp env msg = time_Unix 0 (99999999999999999 * 1000)"
    by (simp add: resolveTimestamp_def ts asInt64_def Int64_def unixAnyToTime_def)
  then have late: "Now2 env + 24 * Hour < resolveTimestamp env msg"
    using clock by (simp add: time_Unix_def Hour_def)
  then have "out_of_window env (resolveTimestamp env msg)"
    by (simp add: out_of_window_def)
  then have "handler env msg = [LogDropBadTimestamp (resolveTimestamp env msg) (Subject msg), Ack]"
    by (rule handler_dropped)
  with r late show ?thesis
    by (simp add: signals_def)
qed

theorem scenario_C_dropped_witness:
  "index (parsePayload
      (example_env (Inr [(''ts_ns'', JNumber (Number False 99999999999999999 None None))])
         (Some (\<lambda>p. None)))
      (example_msg ''payload C'')) ''ts_ns'' = JNumber (Number False 99999999999999999 None None) \<and>
   Now2 (example_env (Inr [(''ts_ns'', JNumber (Number False 99999999999999999 None None))])
         (Some (\<lambda>p. None))) \<le> 4102444800000000000 \<and>
   signals (handler
      (example_env (Inr [(''ts_ns'', JNumber (Number False 99999999999999999 None None))])
         (Some (\<lambda>p. None)))
      (example_msg ''payload C'')) = [Ack]"
proof -
  let ?env = "example_env (Inr [(''ts_ns'', JNumber (Number False 99999999999999999 None None))])
      (Some (\<lambda>p. None))"
  have ts: "index (parsePayload ?env (example_msg ''payload C'')) ''ts_ns'' =
      JNumber (Number False 99999999999999999 None None)"
    by (simp add: index_def parsePayload_def example_env_def)
  have clock: "Now2 ?env \<le> 4102444800000000000"
    by (simp add: example_env_def)
  from scenario_C_dropped [OF ts clock] have
    "signals (handler ?env (example_msg ''payload C'')) = [Ack]"
    by (elim conjE)
  with ts clock show ?thesis
    by (intro conjI)
qed

end
